theory Spec2Isabelle
  imports Main "HOL-Library.Char_ord" "HOL-Library.List_Lexorder"
begin

section \<open>Values and exceptions\<close>

text \<open>
  An exception is modelled by the text \<open>str(ex)\<close> gives for it and by the class among
  those below that it is an instance of, which is all the handlers of \<^verbatim>\<open>_update\<close> and
  \<^verbatim>\<open>parse\<close> read: an instance of a subclass of \<open>ValueError\<close> defined elsewhere is a
  \<open>ValueError\<close> here, and likewise for the other classes. \<open>TOMLDecodeError\<close>, which
  \<^verbatim>\<open>parse\<close> handles on its own, is a subclass of \<open>ValueError\<close>. \<open>OtherError\<close>, with the
  class name, is an exception that is an instance of none of the other seven classes.
\<close>

datatype exn =
    FileNotFoundError string
  | ConfigError string
  | TOMLDecodeError string
  | KeyError string
  | ValueError string
  | TypeError string
  | AttributeError string
  | OtherError string string

text \<open>
  A raw document is what the TOML parser returns: tables with string keys, arrays, strings,
  integers and booleans (floats and date-times are left out of the value universe).
\<close>

datatype toml =
    TString string
  | TInteger int
  | TBoolean bool
  | TArray "toml list"
  | TTable "(string \<times> toml) list"

text \<open>
  Python objects held by a record instance. A set is the list of its elements without
  duplicates, a dict the list of its items with distinct keys, both in insertion order.
  \<open>PInst name attrs set_attrs\<close> is an instance of a configclass.
\<close>

datatype pyobj =
    PNone
  | PStr string
  | PInt int
  | PBool bool
  | PList "pyobj list"
  | PTuple "pyobj list"
  | PSet "pyobj list"
  | PDict "(pyobj \<times> pyobj) list"
  | PInst string "(string \<times> pyobj) list" "string list"

type_synonym TomlDict = "(string \<times> toml) list"

text \<open>A declared type is used by calling it with one argument.\<close>

type_synonym ctor = "toml \<Rightarrow> exn + pyobj"

subsection \<open>Text of values\<close>

definition hexdigit :: "nat \<Rightarrow> char" where
  "hexdigit n = ''0123456789abcdef'' ! (n mod 16)"

definition digit :: "nat \<Rightarrow> char" where
  "digit n = ''0123456789'' ! (n mod 10)"

fun str_nat :: "nat \<Rightarrow> string" where
  "str_nat n = (if n < 10 then [digit n] else str_nat (n div 10) @ [digit (n mod 10)])"

definition str_int :: "int \<Rightarrow> string" where
  "str_int i = (if i < 0 then CHR ''-'' # str_nat (nat (- i)) else str_nat (nat i))"

text \<open>
  \<open>repr\<close> of a \<open>str\<close>, the characters read as Latin-1 code points: double quotes are used
  when the text holds a single quote and no double quote; the quote and the backslash are
  escaped; tab, newline and carriage return have their letter; every other code point that
  is not printable is written \<^verbatim>\<open>\xhh\<close>.
\<close>

definition repr_char :: "char \<Rightarrow> char \<Rightarrow> string" where
  "repr_char q c =
     (let n = (of_char c :: nat) in
      if c = q \<or> c = CHR 0x5C then [CHR 0x5C, c]
      else if c = CHR 0x09 then [CHR 0x5C, CHR ''t'']
      else if c = CHR 0x0A then [CHR 0x5C, CHR ''n'']
      else if c = CHR 0x0D then [CHR 0x5C, CHR ''r'']
      else if n < 32 \<or> (127 \<le> n \<and> n \<le> 160) \<or> n = 173
        then [CHR 0x5C, CHR ''x'', hexdigit (n div 16), hexdigit (n mod 16)]
      else [c])"

definition repr_str :: "string \<Rightarrow> string" where
  "repr_str s =
     (let q = (if CHR 0x27 \<in> set s \<and> CHR 0x22 \<notin> set s then CHR 0x22 else CHR 0x27)
      in q # concat (map (repr_char q) s) @ [q])"

fun join_with :: "string \<Rightarrow> string list \<Rightarrow> string" where
  "join_with sep [] = []"
| "join_with sep [x] = x"
| "join_with sep (x # y # ys) = x @ sep @ join_with sep (y # ys)"

fun repr_toml :: "toml \<Rightarrow> string" where
  "repr_toml (TString s) = repr_str s"
| "repr_toml (TInteger i) = str_int i"
| "repr_toml (TBoolean b) = (if b then ''True'' else ''False'')"
| "repr_toml (TArray xs) = ''['' @ join_with '', '' (map repr_toml xs) @ '']''"
| "repr_toml (TTable kvs) =
     ''{'' @ join_with '', '' (map (\<lambda>kv. repr_str (fst kv) @ '': '' @ repr_toml (snd kv)) kvs) @ ''}''"

definition type_name_toml :: "toml \<Rightarrow> string" where
  "type_name_toml v =
     (case v of TString _ \<Rightarrow> ''str'' | TInteger _ \<Rightarrow> ''int'' | TBoolean _ \<Rightarrow> ''bool''
      | TArray _ \<Rightarrow> ''list'' | TTable _ \<Rightarrow> ''dict'')"

definition type_name :: "pyobj \<Rightarrow> string" where
  "type_name v =
     (case v of PNone \<Rightarrow> ''NoneType'' | PStr _ \<Rightarrow> ''str'' | PInt _ \<Rightarrow> ''int''
      | PBool _ \<Rightarrow> ''bool'' | PList _ \<Rightarrow> ''list'' | PTuple _ \<Rightarrow> ''tuple''
      | PSet _ \<Rightarrow> ''set'' | PDict _ \<Rightarrow> ''dict'' | PInst n _ _ \<Rightarrow> n)"

definition quoted :: "string \<Rightarrow> string" where
  "quoted s = [CHR 0x27] @ s @ [CHR 0x27]"

definition no_attribute :: "pyobj \<Rightarrow> string \<Rightarrow> exn" where
  "no_attribute v a =
     AttributeError (quoted (type_name v) @ '' object has no attribute '' @ quoted a)"

subsection \<open>Iteration, hashing and equality of keys\<close>

text \<open>\<open>iter(value)\<close> on a raw value: a string gives its characters, a table its keys.\<close>

definition py_iter :: "toml \<Rightarrow> exn + toml list" where
  "py_iter v =
     (case v of
        TArray xs \<Rightarrow> Inr xs
      | TString s \<Rightarrow> Inr (map (\<lambda>c. TString [c]) s)
      | TTable kvs \<Rightarrow> Inr (map (\<lambda>kv. TString (fst kv)) kvs)
      | _ \<Rightarrow> Inl (TypeError (quoted (type_name_toml v) @ '' object is not iterable'')))"

text \<open>\<open>value.items()\<close> exists on a table only.\<close>

definition py_items :: "toml \<Rightarrow> exn + (toml \<times> toml) list" where
  "py_items v =
     (case v of
        TTable kvs \<Rightarrow> Inr (map (\<lambda>kv. (TString (fst kv), snd kv)) kvs)
      | _ \<Rightarrow> Inl (AttributeError
                  (quoted (type_name_toml v) @ '' object has no attribute '' @ quoted ''items'')))"

fun hashable :: "pyobj \<Rightarrow> bool" where
  "hashable PNone = True"
| "hashable (PStr _) = True"
| "hashable (PInt _) = True"
| "hashable (PBool _) = True"
| "hashable (PTuple xs) = list_all hashable xs"
| "hashable (PList _) = False"
| "hashable (PSet _) = False"
| "hashable (PDict _) = False"
| "hashable (PInst _ _ _) = False"

definition unhashable :: "pyobj \<Rightarrow> exn" where
  "unhashable v = TypeError (''unhashable type: '' @ quoted (type_name v))"

text \<open>
  Two hashable objects are the same key when they are equal in Python: \<open>True == 1\<close> and
  \<open>False == 0\<close>, also inside tuples. \<open>py_key\<close> maps equal keys to one representative.
\<close>

fun py_key :: "pyobj \<Rightarrow> pyobj" where
  "py_key (PBool b) = PInt (if b then 1 else 0)"
| "py_key (PTuple xs) = PTuple (map py_key xs)"
| "py_key v = v"

fun set_add :: "pyobj list \<Rightarrow> pyobj \<Rightarrow> pyobj list" where
  "set_add [] y = [y]"
| "set_add (x # xs) y = (if py_key x = py_key y then x # xs else x # set_add xs y)"

fun dict_set :: "(pyobj \<times> pyobj) list \<Rightarrow> pyobj \<Rightarrow> pyobj \<Rightarrow> (pyobj \<times> pyobj) list" where
  "dict_set [] k v = [(k, v)]"
| "dict_set ((k', v') # d) k v =
     (if py_key k' = py_key k then (k', v) # d else (k', v') # dict_set d k v)"

fun dict_get :: "(pyobj \<times> pyobj) list \<Rightarrow> pyobj \<Rightarrow> pyobj option" where
  "dict_get [] k = None"
| "dict_get ((k', v') # d) k = (if py_key k' = py_key k then Some v' else dict_get d k)"

text \<open>\<open>d.update(other)\<close> on a dict, and \<open>s.update(other)\<close> on a set, which adds the keys.\<close>

fun dict_update :: "(pyobj \<times> pyobj) list \<Rightarrow> (pyobj \<times> pyobj) list \<Rightarrow> (pyobj \<times> pyobj) list" where
  "dict_update d [] = d"
| "dict_update d ((k, v) # other) = dict_update (dict_set d k v) other"

fun set_update :: "pyobj list \<Rightarrow> pyobj list \<Rightarrow> pyobj list" where
  "set_update s [] = s"
| "set_update s (y # ys) = set_update (set_add s y) ys"

section \<open>Schema and record instances\<close>

text \<open>
  The declared type of a field, as \<^verbatim>\<open>_update\<close> inspects it: a generic alias whose
  \<open>__origin__\<close> is \<open>list\<close>, \<open>tuple\<close>, \<open>set\<close> or \<open>dict\<close> with its first (for \<open>dict\<close>, both)
  \<open>__args__\<close>, or anything else, which is called with the raw value. A \<open>UnionType\<close>
  (\<open>T | None\<close>) stands for its first member.
\<close>

datatype shape =
    Scalar ctor
  | ListOf ctor
  | TupleOf ctor
  | SetOf ctor
  | DictOf ctor ctor

datatype pytype =
    Type shape
  | UnionType shape "shape list"

record cfg =
  cls_name :: string
  attrs :: "(string \<times> pyobj) list"
  set_attrs :: "string list"

text \<open>
  A class as the decorator \<^verbatim>\<open>configclass\<close> leaves it: the marker \<open>IS_DUNDER\<close>, the fields
  of the dataclass, the initializer the dataclass generated (given the positional arguments, it
  yields the attributes of the new object or raises), and the hook stored under
  \<open>VALIDATE_DUNDER\<close>. The hook is the effect of the call \<^verbatim>\<open>validator(self)\<close> of line 86
  on what \<open>getattr\<close> read through the instance in line 84 (a plain function stored on the
  class is read as a bound method, so that call passes the instance twice; a callable object
  is read as it is). The hook only reads the instance.
\<close>

record configclass =
  name :: string
  is_configclass :: bool
  dataclass_fields :: "(string \<times> pytype) list"
  old_init :: "toml list \<Rightarrow> exn + (string \<times> pyobj) list"
  validate :: "(cfg \<Rightarrow> exn option) option"

definition getattr :: "cfg \<Rightarrow> string \<Rightarrow> pyobj option" where
  "getattr self key = map_of (attrs self) key"

fun assoc_set :: "(string \<times> pyobj) list \<Rightarrow> string \<Rightarrow> pyobj \<Rightarrow> (string \<times> pyobj) list" where
  "assoc_set [] k v = [(k, v)]"
| "assoc_set ((k', v') # al) k v = (if k' = k then (k, v) # al else (k', v') # assoc_set al k v)"

definition setattr :: "cfg \<Rightarrow> string \<Rightarrow> pyobj \<Rightarrow> cfg" where
  "setattr self key v = self\<lparr>attrs := assoc_set (attrs self) key v\<rparr>"

text \<open>\<^verbatim>\<open>getattr(self, SET_ATTRS_DUNDER).add(key)\<close>\<close>

definition add_set_attr :: "cfg \<Rightarrow> string \<Rightarrow> cfg" where
  "add_set_attr self key =
     self\<lparr>set_attrs := (if key \<in> set (set_attrs self) then set_attrs self
                         else set_attrs self @ [key])\<rparr>"

section \<open>The coercion and merge engine: \<^verbatim>\<open>_update\<close>\<close>

text \<open>
  \<open>map(item_t, value)\<close> consumed from the left: the objects built before the first failing
  call, and that failure.
\<close>

fun map_ctor :: "ctor \<Rightarrow> toml list \<Rightarrow> pyobj list \<times> exn option" where
  "map_ctor item_t [] = ([], None)"
| "map_ctor item_t (x # xs) =
     (case item_t x of
        Inl ex \<Rightarrow> ([], Some ex)
      | Inr y \<Rightarrow> (case map_ctor item_t xs of (ys, r) \<Rightarrow> (y # ys, r)))"

text \<open>\<open>set(map(item_t, value))\<close>: each object is hashed as it is added.\<close>

fun build_set :: "ctor \<Rightarrow> toml list \<Rightarrow> pyobj list \<Rightarrow> exn + pyobj list" where
  "build_set item_t [] acc = Inr acc"
| "build_set item_t (x # xs) acc =
     (case item_t x of
        Inl ex \<Rightarrow> Inl ex
      | Inr y \<Rightarrow> if hashable y then build_set item_t xs (set_add acc y) else Inl (unhashable y))"

text \<open>
  The comprehension \<^verbatim>\<open>{dk_t(k): dv_t(v) for k, v in value.items()}\<close>: for each item the
  key is built, then the value, then the item is stored under the key's hash.
\<close>

fun build_dict :: "ctor \<Rightarrow> ctor \<Rightarrow> (toml \<times> toml) list \<Rightarrow> (pyobj \<times> pyobj) list
                   \<Rightarrow> exn + (pyobj \<times> pyobj) list" where
  "build_dict dk_t dv_t [] acc = Inr acc"
| "build_dict dk_t dv_t ((k, v) # kvs) acc =
     (case dk_t k of
        Inl ex \<Rightarrow> Inl ex
      | Inr k' \<Rightarrow>
         (case dv_t v of
            Inl ex \<Rightarrow> Inl ex
          | Inr v' \<Rightarrow> if hashable k' then build_dict dk_t dv_t kvs (dict_set acc k' v')
                      else Inl (unhashable k')))"

text \<open>
  The body of the \<^verbatim>\<open>try\<close> of \<^verbatim>\<open>_update\<close> (lines 38 to 58) for one key. The result is
  the instance as the statement leaves it and the exception it raised, if any.

  In the list branch \<open>extend\<close> grows the list object in place: when the attribute existed, the
  objects built before a failing call are already in the instance's list. When the attribute
  did not exist the list is the fresh default of \<open>getattr\<close> and reaches the instance with
  \<open>setattr\<close> only. The method (\<open>extend\<close>, \<open>update\<close>) is looked up before its argument is
  evaluated.
\<close>

fun assign :: "shape \<Rightarrow> cfg \<Rightarrow> string \<Rightarrow> toml \<Rightarrow> cfg \<times> exn option" where
  "assign (ListOf item_t) self key value =
     (case getattr self key of
        None \<Rightarrow>
         (case py_iter value of
            Inl ex \<Rightarrow> (self, Some ex)
          | Inr xs \<Rightarrow>
             (case map_ctor item_t xs of
                (ys, Some ex) \<Rightarrow> (self, Some ex)
              | (ys, None) \<Rightarrow> (add_set_attr (setattr self key (PList ys)) key, None)))
      | Some (PList current_list) \<Rightarrow>
         (case py_iter value of
            Inl ex \<Rightarrow> (self, Some ex)
          | Inr xs \<Rightarrow>
             (case map_ctor item_t xs of
                (ys, Some ex) \<Rightarrow> (setattr self key (PList (current_list @ ys)), Some ex)
              | (ys, None) \<Rightarrow>
                 (add_set_attr (setattr self key (PList (current_list @ ys))) key, None)))
      | Some other \<Rightarrow> (self, Some (no_attribute other ''extend'')))"
| "assign (TupleOf item_t) self key value =
     (case py_iter value of
        Inl ex \<Rightarrow> (self, Some ex)
      | Inr xs \<Rightarrow>
         (case map_ctor item_t xs of
            (ys, Some ex) \<Rightarrow> (self, Some ex)
          | (ys, None) \<Rightarrow> (add_set_attr (setattr self key (PTuple ys)) key, None)))"
| "assign (SetOf item_t) self key value =
     (case py_iter value of
        Inl ex \<Rightarrow> (self, Some ex)
      | Inr xs \<Rightarrow>
         (case build_set item_t xs [] of
            Inl ex \<Rightarrow> (self, Some ex)
          | Inr s \<Rightarrow> (add_set_attr (setattr self key (PSet s)) key, None)))"
| "assign (DictOf dk_t dv_t) self key value =
     (case getattr self key of
        None \<Rightarrow>
         (case py_items value of
            Inl ex \<Rightarrow> (self, Some ex)
          | Inr kvs \<Rightarrow>
             (case build_dict dk_t dv_t kvs [] of
                Inl ex \<Rightarrow> (self, Some ex)
              | Inr new \<Rightarrow>
                 (add_set_attr (setattr self key (PDict (dict_update [] new))) key, None)))
      | Some (PDict current_dict) \<Rightarrow>
         (case py_items value of
            Inl ex \<Rightarrow> (self, Some ex)
          | Inr kvs \<Rightarrow>
             (case build_dict dk_t dv_t kvs [] of
                Inl ex \<Rightarrow> (self, Some ex)
              | Inr new \<Rightarrow>
                 (add_set_attr (setattr self key (PDict (dict_update current_dict new))) key,
                  None)))
      | Some (PSet current_set) \<Rightarrow>
         (case py_items value of
            Inl ex \<Rightarrow> (self, Some ex)
          | Inr kvs \<Rightarrow>
             (case build_dict dk_t dv_t kvs [] of
                Inl ex \<Rightarrow> (self, Some ex)
              | Inr new \<Rightarrow>
                 (add_set_attr
                    (setattr self key (PSet (set_update current_set (map fst new)))) key,
                  None)))
      | Some other \<Rightarrow> (self, Some (no_attribute other ''update'')))"
| "assign (Scalar value_t) self key value =
     (case value_t value of
        Inl ex \<Rightarrow> (self, Some ex)
      | Inr v \<Rightarrow> (add_set_attr (setattr self key v) key, None))"

text \<open>
  The two \<^verbatim>\<open>except\<close> clauses of \<^verbatim>\<open>_update\<close> (lines 59 to 62): a \<open>ConfigError\<close> gets the
  key and a dot in front, a \<open>KeyError\<close> or \<open>ValueError\<close> (so also a \<open>TOMLDecodeError\<close>)
  becomes a \<open>ConfigError\<close> with the key and a colon in front, anything else passes.
\<close>

fun reraise :: "string \<Rightarrow> exn \<Rightarrow> exn" where
  "reraise key (ConfigError m) = ConfigError (key @ ''.'' @ m)"
| "reraise key (KeyError m) = ConfigError (key @ '': '' @ m)"
| "reraise key (ValueError m) = ConfigError (key @ '': '' @ m)"
| "reraise key (TOMLDecodeError m) = ConfigError (key @ '': '' @ m)"
| "reraise key ex = ex"

definition value_type :: "pytype \<Rightarrow> shape" where
  "value_type t = (case t of Type s \<Rightarrow> s | UnionType s _ \<Rightarrow> s)"

text \<open>
  \<^verbatim>\<open>_update(self, toml_dict)\<close>: the items in document order. An unknown key raises a
  \<open>KeyError\<close> (line 32, outside the \<^verbatim>\<open>try\<close>), whose text is the \<open>repr\<close> of its argument.
\<close>

fun update :: "configclass \<Rightarrow> cfg \<Rightarrow> TomlDict \<Rightarrow> cfg \<times> exn option" where
  "update cls self [] = (self, None)"
| "update cls self ((key, value) # rest) =
     (case map_of (dataclass_fields cls) key of
        None \<Rightarrow> (self, Some (KeyError (repr_str (''Unknown key '' @ key))))
      | Some value_t \<Rightarrow>
         (case assign (value_type value_t) self key value of
            (self', Some ex) \<Rightarrow> (self', Some (reraise key ex))
          | (self', None) \<Rightarrow> update cls self' rest))"

text \<open>
  \<^verbatim>\<open>_config_init\<close>, the initializer the decorator installs: a leading \<open>dict\<close> argument is
  taken as the document, the remaining arguments go to the dataclass initializer, then the
  document is applied. An exception leaves no object.
\<close>

definition config_init :: "configclass \<Rightarrow> toml list \<Rightarrow> exn + cfg" where
  "config_init cls args =
     (let (toml_dict, args') =
            (case args of TTable d # rest \<Rightarrow> (d, rest) | _ \<Rightarrow> ([], args))
      in case old_init cls args' of
           Inl ex \<Rightarrow> Inl ex
         | Inr a \<Rightarrow>
            (case update cls \<lparr>cls_name = name cls, attrs = a, set_attrs = []\<rparr> toml_dict of
               (self, Some ex) \<Rightarrow> Inl ex
             | (self, None) \<Rightarrow> Inr self))"

text \<open>A configclass used as the declared type of a field of another one.\<close>

definition as_ctor :: "configclass \<Rightarrow> ctor" where
  "as_ctor cls value =
     (case config_init cls [value] of
        Inl ex \<Rightarrow> Inl ex
      | Inr self \<Rightarrow> Inr (PInst (cls_name self) (attrs self) (set_attrs self)))"

section \<open>The document loader: \<^verbatim>\<open>parse\<close>\<close>

text \<open>
  The operating system as \<^verbatim>\<open>parse\<close> uses it: \<open>os.listdir\<close>, \<open>os.path.isfile\<close>, and
  \<open>open\<close> followed by the TOML parser's \<open>load\<close>. Paths are the strings the program passes;
  a relative path is resolved by the system against the working directory.
\<close>

record os =
  listdir :: "string \<Rightarrow> exn + string list"
  isfile :: "string \<Rightarrow> bool"
  open_load :: "string \<Rightarrow> exn + TomlDict"

text \<open>\<open>os.path.join\<close> of two components (POSIX).\<close>

definition join :: "string \<Rightarrow> string \<Rightarrow> string" where
  "join a b =
     (if b \<noteq> [] \<and> hd b = CHR ''/'' then b
      else if a = [] \<or> last a = CHR ''/'' then a @ b
      else a @ ''/'' @ b)"

text \<open>The f-string \<^verbatim>\<open>{file_path}\<close> of a path that may be \<open>None\<close>.\<close>

definition str_path :: "string option \<Rightarrow> string" where
  "str_path p = (case p of None \<Rightarrow> ''None'' | Some s \<Rightarrow> s)"

text \<open>
  Lines 75 to 77: the base file. Lines 79 to 83: the loop over the sorted entries, carrying
  the variable \<open>file_path\<close>. Both return the instance, \<open>file_path\<close> and the exception raised.
\<close>

definition load_base :: "os \<Rightarrow> configclass \<Rightarrow> cfg \<Rightarrow> string option \<Rightarrow> cfg \<times> exn option" where
  "load_base sys cls self conf_path =
     (case conf_path of
        None \<Rightarrow> (self, None)
      | Some p \<Rightarrow>
         (case open_load sys p of
            Inl ex \<Rightarrow> (self, Some ex)
          | Inr doc \<Rightarrow> update cls self doc))"

fun load_overlay :: "os \<Rightarrow> configclass \<Rightarrow> string \<Rightarrow> cfg \<Rightarrow> string option \<Rightarrow> string list
                     \<Rightarrow> cfg \<times> string option \<times> exn option" where
  "load_overlay sys cls conf_d_path self file_path [] = (self, file_path, None)"
| "load_overlay sys cls conf_d_path self file_path (entry # entries) =
     (if \<not> isfile sys entry then load_overlay sys cls conf_d_path self (Some entry) entries
      else
        (case open_load sys (join conf_d_path entry) of
           Inl ex \<Rightarrow> (self, Some entry, Some ex)
         | Inr doc \<Rightarrow>
            (case update cls self doc of
               (self', Some ex) \<Rightarrow> (self', Some entry, Some ex)
             | (self', None) \<Rightarrow> load_overlay sys cls conf_d_path self' (Some entry) entries)))"

definition load_files :: "os \<Rightarrow> configclass \<Rightarrow> cfg \<Rightarrow> string option \<Rightarrow> string option
                          \<Rightarrow> cfg \<times> string option \<times> exn option" where
  "load_files sys cls self conf_path conf_d_path =
     (case load_base sys cls self conf_path of
        (self', Some ex) \<Rightarrow> (self', conf_path, Some ex)
      | (self', None) \<Rightarrow>
         (case conf_d_path of
            None \<Rightarrow> (self', conf_path, None)
          | Some d \<Rightarrow>
             (case listdir sys d of
                Inl ex \<Rightarrow> (self', conf_path, Some ex)
              | Inr entries \<Rightarrow> load_overlay sys cls d self' conf_path (sort entries))))"

text \<open>The whole \<^verbatim>\<open>try\<close> block of \<^verbatim>\<open>parse\<close> (lines 75 to 86): the files, then the hook.\<close>

definition try_block :: "os \<Rightarrow> configclass \<Rightarrow> cfg \<Rightarrow> string option \<Rightarrow> string option
                         \<Rightarrow> cfg \<times> string option \<times> exn option" where
  "try_block sys cls self conf_path conf_d_path =
     (case load_files sys cls self conf_path conf_d_path of
        (self', file_path, Some ex) \<Rightarrow> (self', file_path, Some ex)
      | (self', file_path, None) \<Rightarrow>
         (case validate cls of
            None \<Rightarrow> (self', file_path, None)
          | Some validator \<Rightarrow> (self', file_path, validator self')))"

text \<open>
  \<^verbatim>\<open>parse(cls, conf_path, conf_d_path, ignore_missing)\<close> with its three \<^verbatim>\<open>except\<close>
  clauses (lines 87 to 93); every other exception leaves \<^verbatim>\<open>parse\<close> as it is.
\<close>

definition parse :: "os \<Rightarrow> configclass \<Rightarrow> string option \<Rightarrow> string option \<Rightarrow> bool
                     \<Rightarrow> exn + cfg" where
  "parse sys cls conf_path conf_d_path ignore_missing =
     (if \<not> is_configclass cls then Inl (TypeError ''parse() requires configclass type'')
      else
        (case config_init cls [] of
           Inl ex \<Rightarrow> Inl ex
         | Inr self \<Rightarrow>
            (case try_block sys cls self conf_path conf_d_path of
               (self', file_path, None) \<Rightarrow> Inr self'
             | (self', file_path, Some (FileNotFoundError m)) \<Rightarrow>
                 if ignore_missing then Inr self' else Inl (FileNotFoundError m)
             | (self', file_path, Some (ConfigError m)) \<Rightarrow>
                 Inl (ConfigError (''In file '' @ str_path file_path @ '': '' @ m))
             | (self', file_path, Some (TOMLDecodeError m)) \<Rightarrow>
                 Inl (ConfigError
                        (''Error parsing the file '' @ str_path file_path @ '': '' @ m))
             | (self', file_path, Some ex) \<Rightarrow> Inl ex)))"


section \<open>Built-in types, a sample schema and sample file systems\<close>

text \<open>
  \<open>str\<close> and \<open>int\<close> as declared types, on the raw values of the model. \<open>str\<close> of a string
  is the string, of anything else its \<open>repr\<close>. \<open>int\<close> takes an integer or a boolean, parses
  a string (surrounding white space, a sign, decimal digits with single underscores between
  them, at most 4300 digits, nothing after them), and raises \<open>TypeError\<close> on an array or a
  table. The messages are those of CPython 3.11, which prints at most 200 characters of the
  \<open>repr\<close> of an invalid literal.
\<close>

definition py_str :: ctor where
  "py_str v = Inr (PStr (case v of TString s \<Rightarrow> s | _ \<Rightarrow> repr_toml v))"

definition is_space :: "char \<Rightarrow> bool" where
  "is_space c =
     (let n = (of_char c :: nat)
      in (9 \<le> n \<and> n \<le> 13) \<or> n = 32 \<or> n = 133 \<or> n = 160)"

definition is_digit :: "char \<Rightarrow> bool" where
  "is_digit c = (let n = (of_char c :: nat) in 48 \<le> n \<and> n \<le> 57)"

definition strip :: "string \<Rightarrow> string" where
  "strip s = rev (dropWhile is_space (rev (dropWhile is_space s)))"

fun digits_value :: "string \<Rightarrow> bool \<Rightarrow> nat \<Rightarrow> nat option" where
  "digits_value [] after_digit acc = (if after_digit then Some acc else None)"
| "digits_value (c # cs) after_digit acc =
     (if is_digit c then digits_value cs True (10 * acc + (of_char c - 48))
      else if c = CHR ''_'' \<and> after_digit then digits_value cs False acc
      else None)"

definition py_int :: ctor where
  "py_int v =
     (case v of
        TInteger i \<Rightarrow> Inr (PInt i)
      | TBoolean b \<Rightarrow> Inr (PInt (if b then 1 else 0))
      | TString s \<Rightarrow>
         (let t = strip s;
              negative = (t \<noteq> [] \<and> hd t = CHR ''-'');
              body = (if t \<noteq> [] \<and> (hd t = CHR ''-'' \<or> hd t = CHR ''+'') then tl t else t);
              scanned = takeWhile (\<lambda>c. is_digit c \<or> c = CHR ''_'') body;
              rest = dropWhile (\<lambda>c. is_digit c \<or> c = CHR ''_'') body;
              n = length (filter is_digit scanned);
              invalid = ValueError (''invalid literal for int() with base 10: ''
                                    @ take 200 (repr_str s))
          in case digits_value scanned False 0 of
               None \<Rightarrow> Inl invalid
             | Some m \<Rightarrow>
                 if n > 4300
                 then Inl (ValueError
                        (''Exceeds the limit (4300 digits) for integer string conversion: value has ''
                         @ str_nat n
                         @ '' digits; use sys.set_int_max_str_digits() to increase the limit''))
                 else if rest \<noteq> [] then Inl invalid
                 else Inr (PInt (if negative then - int m else int m)))
      | _ \<Rightarrow> Inl (TypeError
                  (''int() argument must be a string, a bytes-like object or a real number, not ''
                   @ quoted (type_name_toml v))))"

text \<open>\<open>NoneType\<close>, the second member of a union \<open>T | None\<close>, takes no argument.\<close>

definition none_type :: ctor where
  "none_type v = Inl (TypeError ''NoneType takes no arguments'')"

text \<open>A raw value stored as it is (a positional argument of a dataclass initializer).\<close>

fun of_toml :: "toml \<Rightarrow> pyobj" where
  "of_toml (TString s) = PStr s"
| "of_toml (TInteger i) = PInt i"
| "of_toml (TBoolean b) = PBool b"
| "of_toml (TArray xs) = PList (map of_toml xs)"
| "of_toml (TTable kvs) = PDict (map (\<lambda>kv. (PStr (fst kv), of_toml (snd kv))) kvs)"

text \<open>
  The initializer a dataclass generates when every field has a default: positional arguments
  fill the fields in order, the other fields get their defaults.
\<close>

definition dataclass_init :: "string \<Rightarrow> (string \<times> pyobj) list \<Rightarrow> toml list
                              \<Rightarrow> exn + (string \<times> pyobj) list" where
  "dataclass_init cname defaults args =
     (if length args > length defaults
      then Inl (TypeError
             (cname @ ''.__init__() takes ''
              @ (if defaults = [] then ''1 positional argument''
                 else ''from 1 to '' @ str_nat (Suc (length defaults)) @ '' positional arguments'')
              @ '' but '' @ str_nat (Suc (length args))
              @ (if length args = 0 then '' was given'' else '' were given'')))
      else Inr (zip (map fst defaults) (map of_toml args) @ drop (length args) defaults))"

text \<open>
  The schema used in the examples:
  \<^verbatim>\<open>
  @configclass
  class Sub:
      level: int = 0

  class PortNotZero:
      def __call__(self, cfg):
          if cfg.port == 0:
              raise ConfigError("port must not be 0")

  @configclass(validator=PortNotZero())
  class Config:
      port: int = 1
      tags: list[str] = field(default_factory=list)
      limits: dict[str, int] = field(default_factory=dict)
      flags: tuple[str, ...] = ()
      marks: set[str] = field(default_factory=set)
      sub: Sub | None = None
  \<close>
\<close>

definition Sub :: configclass where
  "Sub = \<lparr>name = ''Sub'', is_configclass = True,
          dataclass_fields = [(''level'', Type (Scalar py_int))],
          old_init = dataclass_init ''Sub'' [(''level'', PInt 0)],
          validate = None\<rparr>"

definition port_not_zero :: "cfg \<Rightarrow> exn option" where
  "port_not_zero self =
     (if getattr self ''port'' = Some (PInt 0) then Some (ConfigError ''port must not be 0'')
      else None)"

definition Config_defaults :: "(string \<times> pyobj) list" where
  "Config_defaults =
     [(''port'', PInt 1), (''tags'', PList []), (''limits'', PDict []),
      (''flags'', PTuple []), (''marks'', PSet []), (''sub'', PNone)]"

definition Config :: configclass where
  "Config = \<lparr>name = ''Config'', is_configclass = True,
             dataclass_fields =
               [(''port'', Type (Scalar py_int)),
                (''tags'', Type (ListOf py_str)),
                (''limits'', Type (DictOf py_str py_int)),
                (''flags'', Type (TupleOf py_str)),
                (''marks'', Type (SetOf py_str)),
                (''sub'', UnionType (Scalar (as_ctor Sub)) [Scalar none_type])],
             old_init = dataclass_init ''Config'' Config_defaults,
             validate = Some port_not_zero\<rparr>"

definition Config_default :: cfg where
  "Config_default = \<lparr>cls_name = ''Config'', attrs = Config_defaults, set_attrs = []\<rparr>"

text \<open>
  A file system given by its directories (path and entries, in the order \<open>listdir\<close> returns
  them) and its regular files (path and what the TOML parser makes of the content: a document
  or the text of a \<open>TOMLDecodeError\<close>). The paths are written as the program passes them,
  relative ones from the working directory.
\<close>

definition no_such_file :: "string \<Rightarrow> exn" where
  "no_such_file p = FileNotFoundError (''[Errno 2] No such file or directory: '' @ repr_str p)"

definition file_system :: "(string \<times> string list) list \<Rightarrow> (string \<times> (string + TomlDict)) list \<Rightarrow> os" where
  "file_system dirs files =
     \<lparr>listdir = (\<lambda>p. case map_of dirs p of
                        Some entries \<Rightarrow> Inr entries
                      | None \<Rightarrow>
                         if p \<in> fst ` set files
                         then Inl (OtherError ''NotADirectoryError''
                                     (''[Errno 20] Not a directory: '' @ repr_str p))
                         else Inl (no_such_file p)),
      isfile = (\<lambda>p. p \<in> fst ` set files),
      open_load = (\<lambda>p. case map_of files p of
                          Some (Inr doc) \<Rightarrow> Inr doc
                        | Some (Inl m) \<Rightarrow> Inl (TOMLDecodeError m)
                        | None \<Rightarrow>
                           if p \<in> fst ` set dirs
                           then Inl (OtherError ''IsADirectoryError''
                                       (''[Errno 21] Is a directory: '' @ repr_str p))
                           else Inl (no_such_file p))\<rparr>"

text \<open>
  An overlay directory \<open>conf.d\<close> with two files; the working directory holds neither name.
\<close>

definition tags_a :: TomlDict where
  "tags_a = [(''tags'', TArray [TString ''a''])]"

definition tags_b :: TomlDict where
  "tags_b = [(''tags'', TArray [TString ''b''])]"

definition fs_overlay :: os where
  "fs_overlay =
     file_system [(''conf.d'', [''b.toml'', ''a.toml''])]
                 [(''conf.d/a.toml'', Inr tags_a), (''conf.d/b.toml'', Inr tags_b)]"

text \<open>
  The same two files when the program runs inside the overlay directory and is given the
  path \<open>.\<close>: each file is reached under its bare name and as \<open>./name\<close>.
\<close>

definition fs_inside :: os where
  "fs_inside =
     file_system [(''.'', [''b.toml'', ''a.toml''])]
                 [(''a.toml'', Inr tags_a), (''b.toml'', Inr tags_b),
                  (''./a.toml'', Inr tags_a), (''./b.toml'', Inr tags_b)]"

text \<open>Base files in the working directory, one document each.\<close>

definition fs_base :: os where
  "fs_base =
     file_system []
       [(''bogus.toml'', Inr [(''bogus'', TInteger 1)]),
        (''nested.toml'', Inr [(''sub'', TTable [(''bogus'', TInteger 1)])]),
        (''array.toml'', Inr [(''port'', TArray [TInteger 1])]),
        (''word.toml'', Inr [(''port'', TString ''http'')]),
        (''zero.toml'', Inr [(''port'', TInteger 0)]),
        (''good.toml'', Inr [(''port'', TString ''8080''), (''tags'', TArray [TString ''a''])])]"

text \<open>Documents for the container fields, and a hook that rejects every instance.\<close>

definition limits_cpu :: TomlDict where
  "limits_cpu = [(''limits'', TTable [(''cpu'', TInteger 1)])]"

definition limits_mem_cpu :: TomlDict where
  "limits_mem_cpu = [(''limits'', TTable [(''mem'', TInteger 2), (''cpu'', TInteger 9)])]"

definition flags_xy :: TomlDict where
  "flags_xy = [(''flags'', TArray [TString ''x'', TString ''y'']),
               (''marks'', TArray [TString ''x'', TString ''y''])]"

definition flags_z :: TomlDict where
  "flags_z = [(''flags'', TArray [TString ''z'']), (''marks'', TArray [TString ''z''])]"

definition reject_all :: "cfg \<Rightarrow> exn option" where
  "reject_all self = Some (ConfigError ''rejected'')"

text \<open>
  A schema whose fields are all optional with the default \<open>None\<close>:
  \<^verbatim>\<open>
  @configclass
  class Opt:
      port: int | None = None
      tags: list[str] | None = None
      limits: dict[str, int] | None = None
      flags: tuple[str, ...] | None = None
      marks: set[str] | None = None
  \<close>
\<close>

definition Opt_defaults :: "(string \<times> pyobj) list" where
  "Opt_defaults =
     [(''port'', PNone), (''tags'', PNone), (''limits'', PNone), (''flags'', PNone),
      (''marks'', PNone)]"

definition Opt :: configclass where
  "Opt = \<lparr>name = ''Opt'', is_configclass = True,
          dataclass_fields =
            [(''port'', UnionType (Scalar py_int) [Scalar none_type]),
             (''tags'', UnionType (ListOf py_str) [Scalar none_type]),
             (''limits'', UnionType (DictOf py_str py_int) [Scalar none_type]),
             (''flags'', UnionType (TupleOf py_str) [Scalar none_type]),
             (''marks'', UnionType (SetOf py_str) [Scalar none_type])],
          old_init = dataclass_init ''Opt'' Opt_defaults,
          validate = None\<rparr>"

definition Opt_default :: cfg where
  "Opt_default = \<lparr>cls_name = ''Opt'', attrs = Opt_defaults, set_attrs = []\<rparr>"

definition fs_opt :: os where
  "fs_opt =
     file_system []
       [(''tags.toml'', Inr tags_a), (''limits.toml'', Inr limits_cpu),
        (''others.toml'', Inr ((''port'', TInteger 80) # flags_z))]"

text \<open>
  An overlay directory \<open>conf.d\<close> listing three entries of which \<open>b.toml\<close> is a symbolic link
  to a file that does not exist: \<open>listdir\<close> returns it and \<open>open\<close> does not find it. The
  working directory holds regular files of the three names.
\<close>

definition fs_dangling :: os where
  "fs_dangling =
     file_system [(''conf.d'', [''c.toml'', ''b.toml'', ''a.toml''])]
                 [(''a.toml'', Inr []), (''b.toml'', Inr []), (''c.toml'', Inr []),
                  (''conf.d/a.toml'', Inr tags_a), (''conf.d/c.toml'', Inr tags_b)]"

section \<open>The documents of a load\<close>






section \<open>Facts about attributes, coercion and \<^verbatim>\<open>_update\<close>\<close>

lemma map_of_assoc_set: "map_of (assoc_set al k v) = (map_of al)(k \<mapsto> v)"
  by (induction al) (auto simp: fun_eq_iff)

lemma getattr_setattr: "getattr (setattr self k v) k' = (if k' = k then Some v else getattr self k')"
  by (simp add: getattr_def setattr_def map_of_assoc_set)

lemma getattr_add_set_attr: "getattr (add_set_attr self k) k' = getattr self k'"
  by (simp add: getattr_def add_set_attr_def)



lemma map_ctor_None: "map_ctor f xs = (ys, None) \<longleftrightarrow> map f xs = map Inr ys"
proof (induction xs arbitrary: ys)
  case Nil
  then show ?case by auto
next
  case (Cons x xs)
  show ?case
  proof (cases "f x")
    case (Inl e)
    then show ?thesis by (auto simp: map_eq_Cons_conv)
  next
    case (Inr y)
    obtain zs r where m: "map_ctor f xs = (zs, r)" by (cases "map_ctor f xs")
    show ?thesis using Inr m Cons.IH[of zs] Cons.IH
      by (cases ys) (auto simp: map_eq_Cons_conv)
  qed
qed



lemma assign_frame:
  "assign sh self key v = (s', r) \<Longrightarrow> k \<noteq> key \<Longrightarrow> getattr s' k = getattr self k"
  by (cases sh)
     (auto simp: getattr_setattr getattr_add_set_attr
           split: option.splits sum.splits pyobj.splits prod.splits)


lemma update_frame:
  "update cls self doc = (s', r) \<Longrightarrow> k \<notin> fst ` set doc \<Longrightarrow> getattr s' k = getattr self k"
proof (induction doc arbitrary: self)
  case Nil
  then show ?case by simp
next
  case (Cons kv doc)
  obtain key v where kv: "kv = (key, v)" by (cases kv)
  show ?case
  proof (cases "map_of (dataclass_fields cls) key")
    case None
    with Cons.prems kv show ?thesis by simp
  next
    case (Some t)
    obtain s1 r1 where a: "assign (value_type t) self key v = (s1, r1)"
      by (cases "assign (value_type t) self key v")
    from Cons.prems kv have ne: "k \<noteq> key" by auto
    have f1: "getattr s1 k = getattr self k" using assign_frame[OF a ne] .
    show ?thesis
    proof (cases r1)
      case None
      with Cons.prems kv Some a have "update cls s1 doc = (s', r)" by simp
      from Cons.IH[OF this] Cons.prems f1 show ?thesis by simp
    next
      case (Some e)
      with Cons.prems kv \<open>map_of (dataclass_fields cls) key = Some t\<close> a have "s' = s1" by simp
      with f1 show ?thesis by simp
    qed
  qed
qed

lemma update_member:
  assumes "update cls self doc = (s', None)" "distinct (map fst doc)" "(key, v) \<in> set doc"
    "map_of (dataclass_fields cls) key = Some t"
  shows "\<exists>s s1. getattr s key = getattr self key \<and> assign (value_type t) s key v = (s1, None)
           \<and> getattr s' key = getattr s1 key"
  using assms(1-3)
proof (induction doc arbitrary: self)
  case Nil
  then show ?case by simp
next
  case (Cons kv doc)
  obtain k0 v0 where kv: "kv = (k0, v0)" by (cases kv)
  from Cons.prems(1) kv obtain t0 where t0: "map_of (dataclass_fields cls) k0 = Some t0"
    by (auto split: option.splits)
  obtain s1 r where a: "assign (value_type t0) self k0 v0 = (s1, r)"
    by (cases "assign (value_type t0) self k0 v0")
  from Cons.prems(1) kv t0 a have r: "r = None" and u: "update cls s1 doc = (s', None)"
    by (auto split: option.splits)
  show ?case
  proof (cases "(key, v) = (k0, v0)")
    case True
    with Cons.prems(2) kv have nk: "key \<notin> fst ` set doc" by auto
    from update_frame[OF u nk] have "getattr s' key = getattr s1 key" .
    moreover from True t0 assms(4) have "t0 = t" by simp
    ultimately show ?thesis using a r True by blast
  next
    case False
    with Cons.prems(3) kv have mem: "(key, v) \<in> set doc" by auto
    with Cons.prems(2) kv have ne: "key \<noteq> k0" by (auto simp: image_iff)
    from Cons.prems(2) have d: "distinct (map fst doc)" by simp
    from Cons.IH[OF u d mem] obtain s s2 where
      "getattr s key = getattr s1 key" "assign (value_type t) s key v = (s2, None)"
      "getattr s' key = getattr s2 key" by blast
    moreover have "getattr s1 key = getattr self key" using assign_frame[OF a ne] .
    ultimately show ?thesis by (metis)
  qed
qed

lemma assign_list_ok:
  assumes "assign (ListOf item_t) s key (TArray xs) = (s1, None)"
    "getattr s key = Some (PList existing) \<or> (getattr s key = None \<and> existing = [])"
  shows "\<exists>ys. map item_t xs = map Inr ys \<and> getattr s1 key = Some (PList (existing @ ys))"
  using assms
  by (auto simp: py_iter_def getattr_setattr getattr_add_set_attr map_ctor_None
           split: option.splits prod.splits pyobj.splits)

lemma dict_get_append:
  "dict_get (d @ e) q = (case dict_get d q of Some v \<Rightarrow> Some v | None \<Rightarrow> dict_get e q)"
  by (induction d) auto

lemma dict_get_dict_set:
  "dict_get (dict_set d k v) q = (if py_key k = py_key q then Some v else dict_get d q)"
  by (induction d) auto

lemma dict_get_dict_update:
  "dict_get (dict_update d cs) q
     = (case dict_get (rev cs) q of Some v \<Rightarrow> Some v | None \<Rightarrow> dict_get d q)"
proof (induction cs arbitrary: d)
  case Nil
  then show ?case by simp
next
  case (Cons c cs)
  obtain k v where c: "c = (k, v)" by (cases c)
  show ?case
  proof (cases "dict_get (rev cs) q")
    case None
    then show ?thesis using Cons.IH[of "dict_set d k v"] c
      by (simp add: dict_get_append dict_get_dict_set)
  next
    case (Some w)
    then show ?thesis using Cons.IH[of "dict_set d k v"] c
      by (simp add: dict_get_append)
  qed
qed

lemma dict_get_None_iff:
  "dict_get d q = None \<longleftrightarrow> py_key q \<notin> set (map (\<lambda>kv. py_key (fst kv)) d)"
proof (induction d)
  case Nil
  then show ?case by simp
next
  case (Cons a d)
  obtain k v where a: "a = (k, v)" by (cases a)
  show ?case
  proof (cases "py_key k = py_key q")
    case True
    with a show ?thesis by simp
  next
    case False
    then have "py_key q \<noteq> py_key k" by simp
    with False a Cons.IH show ?thesis by simp
  qed
qed

lemma dict_set_keys:
  "set (map (\<lambda>kv. py_key (fst kv)) (dict_set d k v))
     = insert (py_key k) (set (map (\<lambda>kv. py_key (fst kv)) d))"
proof (induction d)
  case Nil
  then show ?case by simp
next
  case (Cons a d)
  obtain k0 v0 where a: "a = (k0, v0)" by (cases a)
  show ?case
  proof (cases "py_key k0 = py_key k")
    case True
    with a show ?thesis by simp
  next
    case False
    with a Cons.IH show ?thesis by (simp add: insert_commute)
  qed
qed

lemma dict_set_distinct:
  "distinct (map (\<lambda>kv. py_key (fst kv)) d)
     \<Longrightarrow> distinct (map (\<lambda>kv. py_key (fst kv)) (dict_set d k v))"
proof (induction d)
  case Nil
  then show ?case by simp
next
  case (Cons a d)
  obtain k0 v0 where a: "a = (k0, v0)" by (cases a)
  from Cons.prems a have n: "py_key k0 \<notin> set (map (\<lambda>kv. py_key (fst kv)) d)"
    and dd: "distinct (map (\<lambda>kv. py_key (fst kv)) d)" by auto
  show ?case
  proof (cases "py_key k0 = py_key k")
    case True
    with a n dd show ?thesis by simp
  next
    case False
    have "py_key k0 \<notin> set (map (\<lambda>kv. py_key (fst kv)) (dict_set d k v))"
      unfolding dict_set_keys using n False by simp
    with a False Cons.IH[OF dd] show ?thesis by simp
  qed
qed

lemma dict_update_distinct:
  "distinct (map (\<lambda>kv. py_key (fst kv)) d)
     \<Longrightarrow> distinct (map (\<lambda>kv. py_key (fst kv)) (dict_update d cs))"
  by (induction cs arbitrary: d) (auto simp: dict_set_distinct)

lemma dict_get_rev:
  "distinct (map (\<lambda>kv. py_key (fst kv)) d) \<Longrightarrow> dict_get (rev d) q = dict_get d q"
proof (induction d)
  case Nil
  then show ?case by simp
next
  case (Cons a d)
  obtain k v where a: "a = (k, v)" by (cases a)
  from Cons.prems a have nk: "py_key k \<notin> set (map (\<lambda>kv. py_key (fst kv)) d)"
    and dd: "distinct (map (\<lambda>kv. py_key (fst kv)) d)"
    by auto
  show ?case
  proof (cases "py_key k = py_key q")
    case True
    with nk have "dict_get d q = None" by (simp add: dict_get_None_iff)
    with Cons.IH[OF dd] True a show ?thesis by (simp add: dict_get_append)
  next
    case False
    with Cons.IH[OF dd] a show ?thesis by (simp add: dict_get_append split: option.splits)
  qed
qed

lemma build_dict_ok:
  "build_dict dk_t dv_t kvs acc = Inr d \<Longrightarrow>
     \<exists>cs. map (\<lambda>kv. (dk_t (fst kv), dv_t (snd kv))) kvs = map (\<lambda>c. (Inr (fst c), Inr (snd c))) cs
          \<and> list_all (\<lambda>c. hashable (fst c)) cs \<and> d = dict_update acc cs"
proof (induction kvs arbitrary: acc)
  case Nil
  then show ?case by simp
next
  case (Cons kv kvs)
  obtain k v where kv: "kv = (k, v)" by (cases kv)
  from Cons.prems kv obtain k' v' where c: "dk_t k = Inr k'" "dv_t v = Inr v'" "hashable k'"
    and b: "build_dict dk_t dv_t kvs (dict_set acc k' v') = Inr d"
    by (auto split: sum.splits if_splits)
  from Cons.IH[OF b] obtain cs where cs:
    "map (\<lambda>kv. (dk_t (fst kv), dv_t (snd kv))) kvs = map (\<lambda>c. (Inr (fst c), Inr (snd c))) cs"
    "list_all (\<lambda>c. hashable (fst c)) cs" "d = dict_update (dict_set acc k' v') cs" by blast
  show ?case
    by (rule exI[of _ "(k', v') # cs"]) (use cs c kv in simp)
qed

lemma assign_dict_ok:
  assumes "assign (DictOf dk_t dv_t) s key (TTable kvs) = (s1, None)"
    "getattr s key = Some (PDict existing) \<or> (getattr s key = None \<and> existing = [])"
  shows "\<exists>cs d. map (\<lambda>kv. (dk_t (TString (fst kv)), dv_t (snd kv))) kvs
                  = map (\<lambda>c. (Inr (fst c), Inr (snd c))) cs
           \<and> list_all (\<lambda>c. hashable (fst c)) cs
           \<and> getattr s1 key = Some (PDict d)
           \<and> (\<forall>q. dict_get d q = (case dict_get (rev cs) q of Some v \<Rightarrow> Some v
                                     | None \<Rightarrow> dict_get existing q))"
proof -
  from assms obtain new where new: "build_dict dk_t dv_t (map (\<lambda>kv. (TString (fst kv), snd kv)) kvs) [] = Inr new"
    and g: "getattr s1 key = Some (PDict (dict_update existing new))"
    by (auto simp: py_items_def getattr_setattr getattr_add_set_attr
             split: option.splits sum.splits pyobj.splits)
  from build_dict_ok[OF new] obtain cs where cs:
    "map (\<lambda>kv. (dk_t (TString (fst kv)), dv_t (snd kv))) kvs = map (\<lambda>c. (Inr (fst c), Inr (snd c))) cs"
    "list_all (\<lambda>c. hashable (fst c)) cs" "new = dict_update [] cs"
    by (auto simp: comp_def)
  have dn: "distinct (map (\<lambda>kv. py_key (fst kv)) new)" unfolding cs(3) by (rule dict_update_distinct) simp
  have "dict_get (dict_update existing new) q
          = (case dict_get (rev cs) q of Some v \<Rightarrow> Some v | None \<Rightarrow> dict_get existing q)" for q
  proof -
    have "dict_get (rev new) q = dict_get new q" by (rule dict_get_rev[OF dn])
    also have "\<dots> = (case dict_get (rev cs) q of Some v \<Rightarrow> Some v | None \<Rightarrow> None)"
      unfolding cs(3) by (simp add: dict_get_dict_update[of "[]" cs] split: option.splits)
    finally have r: "dict_get (rev new) q = dict_get (rev cs) q"
      by (simp split: option.splits)
    show ?thesis unfolding dict_get_dict_update[of existing new] r ..
  qed
  with g cs show ?thesis by blast
qed

lemma build_set_ok:
  "build_set item_t xs acc = Inr s \<Longrightarrow>
     \<exists>ys. map item_t xs = map Inr ys \<and> list_all hashable ys \<and> s = set_update acc ys"
proof (induction xs arbitrary: acc)
  case Nil
  then show ?case by simp
next
  case (Cons x xs)
  from Cons.prems obtain y where y: "item_t x = Inr y" "hashable y"
    and b: "build_set item_t xs (set_add acc y) = Inr s"
    by (auto split: sum.splits if_splits)
  from Cons.IH[OF b] obtain ys where
    "map item_t xs = map Inr ys" "list_all hashable ys" "s = set_update (set_add acc y) ys" by blast
  then show ?case using y by (intro exI[of _ "y # ys"]) simp
qed

lemma update_validate [simp]: "update (cls\<lparr>validate := hook\<rparr>) self doc = update cls self doc"
  by (induction doc arbitrary: self) (auto split: option.splits prod.splits)

lemma config_init_validate [simp]:
  "config_init (cls\<lparr>validate := hook\<rparr>) args = config_init cls args"
  by (simp add: config_init_def split: list.splits toml.splits sum.splits prod.splits option.splits)

lemma load_overlay_validate [simp]:
  "load_overlay sys (cls\<lparr>validate := hook\<rparr>) d self fp entries = load_overlay sys cls d self fp entries"
  by (induction entries arbitrary: self fp) (auto split: sum.splits prod.splits option.splits)

lemma load_files_validate [simp]:
  "load_files sys (cls\<lparr>validate := hook\<rparr>) self conf_path conf_d_path
     = load_files sys cls self conf_path conf_d_path"
  by (simp add: load_files_def load_base_def split: sum.splits prod.splits option.splits)

lemma load_overlay_file_path:
  "load_overlay sys cls d self fp entries = (self', fp', None)
     \<Longrightarrow> fp' = (if entries = [] then fp else Some (last entries))"
  by (induction entries arbitrary: self fp)
     (auto split: sum.splits prod.splits option.splits if_splits)

lemma sort_eq_Nil: "sort xs = [] \<longleftrightarrow> xs = []"
  by (metis length_sort length_0_conv)

lemma load_files_file_path:
  assumes "load_files sys cls self conf_path conf_d_path = (self', fp, None)"
  shows "fp = (case conf_d_path of
                 None \<Rightarrow> conf_path
               | Some d \<Rightarrow>
                  (case listdir sys d of
                     Inl ex \<Rightarrow> conf_path
                   | Inr entries \<Rightarrow> if entries = [] then conf_path else Some (last (sort entries))))"
  using assms
  by (auto simp: load_files_def sort_eq_Nil dest!: load_overlay_file_path
           split: sum.splits prod.splits option.splits if_splits)









lemma Config_field:
  "map_of (dataclass_fields Config) ''port'' = Some (Type (Scalar py_int))"
  "map_of (dataclass_fields Config) ''tags'' = Some (Type (ListOf py_str))"
  "map_of (dataclass_fields Config) ''limits'' = Some (Type (DictOf py_str py_int))"
  "map_of (dataclass_fields Config) ''flags'' = Some (Type (TupleOf py_str))"
  "map_of (dataclass_fields Config) ''marks'' = Some (Type (SetOf py_str))"
  by (simp_all add: Config_def)

text \<open>The loop over the entries, entry by entry: an exception ends it.\<close>

lemma load_overlay_append:
  "load_overlay sys cls d self fp (xs @ ys)
     = (case load_overlay sys cls d self fp xs of
          (self', fp', None) \<Rightarrow> load_overlay sys cls d self' fp' ys
        | (self', fp', Some ex) \<Rightarrow> (self', fp', Some ex))"
proof (induction xs arbitrary: self fp)
  case Nil
  then show ?case by simp
next
  case (Cons x xs)
  show ?case
  proof (cases "isfile sys x")
    case False
    then show ?thesis using Cons.IH by simp
  next
    case True
    show ?thesis
    proof (cases "open_load sys (join d x)")
      case (Inl ex)
      with True show ?thesis by simp
    next
      case (Inr doc)
      obtain s1 r1 where u: "update cls self doc = (s1, r1)" by (cases "update cls self doc")
      show ?thesis
      proof (cases r1)
        case None
        with True Inr u Cons.IH show ?thesis by simp
      next
        case (Some ex)
        with True Inr u show ?thesis by simp
      qed
    qed
  qed
qed

lemma load_overlay_stops:
  assumes "load_overlay sys cls d self fp before = (self', fp', None)"
    and "isfile sys entry" "open_load sys (join d entry) = Inl ex"
  shows "load_overlay sys cls d self fp (before @ entry # after) = (self', Some entry, Some ex)"
  using assms by (simp add: load_overlay_append)









section \<open>The overlay directory\<close>

text \<open>
  C1. The overlay directory \<open>conf.d\<close> holds the regular files \<open>a.toml\<close> and \<open>b.toml\<close>, and
  \<^verbatim>\<open>parse\<close> applies neither: line 80 tests \<open>isfile\<close> on the bare entry name, which the system
  resolves against the working directory, while line 82 opens the entry joined to the
  directory. So the files applied are not the regular files of the overlay directory, and
  they depend on what the working directory holds.
\<close>

theorem overlay_files_skipped_when_not_in_cwd:
  "listdir fs_overlay ''conf.d'' = Inr [''b.toml'', ''a.toml'']
   \<and> isfile fs_overlay (join ''conf.d'' ''a.toml'')
   \<and> isfile fs_overlay (join ''conf.d'' ''b.toml'')
   \<and> open_load fs_overlay (join ''conf.d'' ''a.toml'') = Inr tags_a
   \<and> parse fs_overlay Config None (Some ''conf.d'') False = Inr Config_default"
  by code_simp

section \<open>Validation\<close>

text \<open>
  C2 (as amended). When the files have been loaded without an exception and the validator
  hook then rejects the completed instance with a \<open>ConfigError\<close>, \<^verbatim>\<open>parse\<close> raises a
  \<open>ConfigError\<close> whose message is the hook's message behind \<open>In file <file_path>:\<close>, the hook
  being called inside the \<^verbatim>\<open>try\<close>. \<open>file_path\<close> is what the loader's variable holds at
  that point: the last entry listed in the overlay directory when there is one, else the base
  path (\<open>None\<close> when there is none).
\<close>

theorem validator_error_gets_file_prefix:
  assumes "is_configclass cls" "config_init cls [] = Inr self0"
    and "load_files sys cls self0 conf_path conf_d_path = (self, file_path, None)"
    and "validate cls = Some validator" "validator self = Some (ConfigError m)"
  shows "parse sys cls conf_path conf_d_path ignore_missing
           = Inl (ConfigError (''In file '' @ str_path file_path @ '': '' @ m))
       \<and> file_path = (case conf_d_path of
                        None \<Rightarrow> conf_path
                      | Some d \<Rightarrow>
                         (case listdir sys d of
                            Inl ex \<Rightarrow> conf_path
                          | Inr entries \<Rightarrow>
                             if entries = [] then conf_path else Some (last (sort entries))))"
  using assms load_files_file_path[OF assms(3)]
  by (simp add: parse_def try_block_def)

theorem validator_error_gets_file_prefix_witness:
  "parse fs_base Config (Some ''zero.toml'') None False
     = Inl (ConfigError (''In file '' @ str_path (Some ''zero.toml'') @ '': '' @ ''port must not be 0''))"
proof -
  have c: "is_configclass Config" by (simp add: Config_def)
  have i: "config_init Config [] = Inr Config_default" by code_simp
  have l: "load_files fs_base Config Config_default (Some ''zero.toml'') None
             = (fst (load_files fs_base Config Config_default (Some ''zero.toml'') None),
                Some ''zero.toml'', None)"
    by code_simp
  have v: "validate Config = Some port_not_zero" by (simp add: Config_def)
  have r: "port_not_zero (fst (load_files fs_base Config Config_default (Some ''zero.toml'') None))
             = Some (ConfigError ''port must not be 0'')"
    by code_simp
  from validator_error_gets_file_prefix[OF c i l v r] show ?thesis by simp
qed

text \<open>
  The claim as stated fails: the hook rejects the instance loaded from \<open>zero.toml\<close> with the
  message \<open>port must not be 0\<close>, and the error \<^verbatim>\<open>parse\<close> raises names the file.
\<close>

theorem validator_error_names_file_counterexample:
  "port_not_zero (fst (load_files fs_base Config Config_default (Some ''zero.toml'') None))
     = Some (ConfigError ''port must not be 0'')
   \<and> parse fs_base Config (Some ''zero.toml'') None False
     = Inl (ConfigError ''In file zero.toml: port must not be 0'')"
  by code_simp

section \<open>Unknown keys\<close>

text \<open>
  C3. A top-level document with the unknown key \<open>bogus\<close> makes \<^verbatim>\<open>parse\<close> fail with a
  \<open>KeyError\<close>, not a \<open>ConfigError\<close>: the \<^verbatim>\<open>raise\<close> of line 32 is outside the \<^verbatim>\<open>try\<close>
  of \<^verbatim>\<open>_update\<close>, and \<^verbatim>\<open>parse\<close> has no clause for \<open>KeyError\<close>. The same unknown key
  inside the table of a nested configclass is raised by the inner \<^verbatim>\<open>_update\<close> within the
  outer \<^verbatim>\<open>try\<close> and does arrive as a \<open>ConfigError\<close>.
\<close>

theorem unknown_key_top_level_is_KeyError:
  "parse fs_base Config (Some ''bogus.toml'') None False
     = Inl (KeyError (quoted ''Unknown key bogus''))
   \<and> parse fs_base Config (Some ''nested.toml'') None False
     = Inl (ConfigError (''In file nested.toml: sub: '' @ quoted ''Unknown key bogus''))"
  by code_simp

section \<open>Scalar fields\<close>

text \<open>
  C4 (as amended). For a scalar-shaped field, \<^verbatim>\<open>_update\<close> calls the declared type with the
  raw value. A result is stored and the key recorded. A \<open>ValueError\<close> or \<open>KeyError\<close> (or a
  subclass, such as \<open>TOMLDecodeError\<close>) is raised again as a \<open>ConfigError\<close> with the text
  \<open><key>: <message>\<close>, a \<open>ConfigError\<close> as a \<open>ConfigError\<close> with the text
  \<open><key>.<message>\<close>; an exception of any other class leaves \<^verbatim>\<open>_update\<close> as it is.
\<close>

theorem scalar_coercion_errors:
  assumes "map_of (dataclass_fields cls) key = Some t" "value_type t = Scalar value_t"
  shows "update cls self ((key, value) # rest) =
           (case value_t value of
              Inr v \<Rightarrow> update cls (add_set_attr (setattr self key v) key) rest
            | Inl ex \<Rightarrow>
               (self, Some (case ex of
                              ConfigError m \<Rightarrow> ConfigError (key @ ''.'' @ m)
                            | KeyError m \<Rightarrow> ConfigError (key @ '': '' @ m)
                            | ValueError m \<Rightarrow> ConfigError (key @ '': '' @ m)
                            | TOMLDecodeError m \<Rightarrow> ConfigError (key @ '': '' @ m)
                            | FileNotFoundError m \<Rightarrow> FileNotFoundError m
                            | TypeError m \<Rightarrow> TypeError m
                            | AttributeError m \<Rightarrow> AttributeError m
                            | OtherError c m \<Rightarrow> OtherError c m)))"
  using assms by (auto split: sum.splits exn.splits)

theorem scalar_coercion_errors_witness:
  "update Config Config_default [(''port'', TString ''http'')]
     = (Config_default,
        Some (ConfigError (''port: invalid literal for int() with base 10: '' @ quoted ''http'')))
   \<and> update Config Config_default [(''port'', TArray [TInteger 1])]
     = (Config_default,
        Some (TypeError (''int() argument must be a string, a bytes-like object or a real number, not ''
                         @ quoted ''list'')))"
proof -
  have t: "value_type (Type (Scalar py_int)) = Scalar py_int" by (simp add: value_type_def)
  have a: "py_int (TString ''http'')
             = Inl (ValueError (''invalid literal for int() with base 10: '' @ quoted ''http''))"
    by code_simp
  have b: "py_int (TArray [TInteger 1])
             = Inl (TypeError (''int() argument must be a string, a bytes-like object or a real number, not ''
                               @ quoted ''list''))"
    by code_simp
  show ?thesis
    using scalar_coercion_errors[OF Config_field(1) t, of Config_default "TString ''http''" "[]"]
          scalar_coercion_errors[OF Config_field(1) t, of Config_default "TArray [TInteger 1]" "[]"]
    unfolding a b by simp
qed

text \<open>
  The claim as stated fails: \<open>int\<close> raises a \<open>TypeError\<close> on an array, and that exception
  leaves \<^verbatim>\<open>parse\<close> unwrapped.
\<close>

theorem constructor_TypeError_unwrapped_counterexample:
  "py_int (TArray [TInteger 1])
     = Inl (TypeError (''int() argument must be a string, a bytes-like object or a real number, not ''
                       @ quoted ''list''))
   \<and> parse fs_base Config (Some ''array.toml'') None False
     = Inl (TypeError (''int() argument must be a string, a bytes-like object or a real number, not ''
                       @ quoted ''list''))"
  by code_simp

section \<open>Container fields\<close>

text \<open>
  The list branch when the field is absent or holds a list. Two documents applied in order
  without an exception, each giving the field an array: every element is coerced by the
  declared element type, and the field holds the existing elements, then the coerced elements
  of the first document, then those of the second.
\<close>

lemma list_field_accumulates:
  assumes "map_of (dataclass_fields cls) key = Some t" "value_type t = ListOf item_t"
    and "getattr self key = Some (PList existing) \<or> (getattr self key = None \<and> existing = [])"
    and "distinct (map fst doc_a)" "(key, TArray xs) \<in> set doc_a"
    and "distinct (map fst doc_b)" "(key, TArray xs') \<in> set doc_b"
    and "update cls self doc_a = (self1, None)" "update cls self1 doc_b = (self2, None)"
  shows "\<exists>ys ys'. map item_t xs = map Inr ys \<and> map item_t xs' = map Inr ys'
           \<and> getattr self1 key = Some (PList (existing @ ys))
           \<and> getattr self2 key = Some (PList (existing @ ys @ ys'))"
proof -
  from update_member[OF assms(8) assms(4) assms(5) assms(1)] assms(2)
  obtain s s1 where s: "getattr s key = getattr self key"
    "assign (ListOf item_t) s key (TArray xs) = (s1, None)" "getattr self1 key = getattr s1 key"
    by auto
  from assign_list_ok[OF s(2), of existing] s(1) assms(3)
  obtain ys where ys: "map item_t xs = map Inr ys" "getattr s1 key = Some (PList (existing @ ys))"
    by auto
  from update_member[OF assms(9) assms(6) assms(7) assms(1)] assms(2)
  obtain u u1 where u: "getattr u key = getattr self1 key"
    "assign (ListOf item_t) u key (TArray xs') = (u1, None)" "getattr self2 key = getattr u1 key"
    by auto
  from assign_list_ok[OF u(2), of "existing @ ys"] u(1) s(3) ys(2)
  obtain ys' where ys': "map item_t xs' = map Inr ys'"
    "getattr u1 key = Some (PList ((existing @ ys) @ ys'))"
    by auto
  show ?thesis using ys ys' s(3) u(3) by auto
qed

lemma list_field_accumulates_example:
  "getattr (fst (update Config (fst (update Config Config_default tags_a)) tags_b)) ''tags''
     = Some (PList [PStr ''a'', PStr ''b''])"
proof -
  have t: "value_type (Type (ListOf py_str)) = ListOf py_str" by (simp add: value_type_def)
  have e: "getattr Config_default ''tags'' = Some (PList [])
           \<or> (getattr Config_default ''tags'' = None \<and> [] = ([] :: pyobj list))" by code_simp
  have da: "distinct (map fst tags_a)" and db: "distinct (map fst tags_b)" by code_simp+
  have ma: "(''tags'', TArray [TString ''a'']) \<in> set tags_a"
    and mb: "(''tags'', TArray [TString ''b'']) \<in> set tags_b" by code_simp+
  have ua: "update Config Config_default tags_a = (fst (update Config Config_default tags_a), None)"
    by code_simp
  have ub: "update Config (fst (update Config Config_default tags_a)) tags_b
              = (fst (update Config (fst (update Config Config_default tags_a)) tags_b), None)"
    by code_simp
  from list_field_accumulates[OF Config_field(2) t e da ma db mb ua ub]
  obtain ys ys' where "map py_str [TString ''a''] = map Inr ys" "map py_str [TString ''b''] = map Inr ys'"
    "getattr (fst (update Config (fst (update Config Config_default tags_a)) tags_b)) ''tags''
       = Some (PList ([] @ ys @ ys'))" by blast
  then show ?thesis by (auto simp: py_str_def)
qed

text \<open>
  C5. A list-shaped field that holds no list yet does not always start from empty. For the
  field \<open>tags: list[str] | None = None\<close>, whose union line 36 unwraps to \<open>list[str]\<close>,
  \<open>getattr(self, key, [])\<close> of line 40 returns the \<open>None\<close> the field holds, not its default
  \<open>[]\<close>, and \<open>extend\<close> of line 41 raises an \<open>AttributeError\<close> that leaves \<^verbatim>\<open>parse\<close>
  unwrapped. The scalar, tuple and set branches assign over the \<open>None\<close> of such a field.
\<close>

theorem optional_list_field_raises_AttributeError:
  "config_init Opt [] = Inr Opt_default
   \<and> getattr Opt_default ''tags'' = Some PNone
   \<and> parse fs_opt Opt (Some ''tags.toml'') None False
     = Inl (AttributeError (quoted ''NoneType'' @ '' object has no attribute '' @ quoted ''extend''))
   \<and> parse fs_opt Opt (Some ''others.toml'') None False
     = Inr \<lparr>cls_name = ''Opt'',
            attrs = [(''port'', PInt 80), (''tags'', PNone), (''limits'', PNone),
                     (''flags'', PTuple [PStr ''z'']), (''marks'', PSet [PStr ''z''])],
            set_attrs = [''port'', ''flags'', ''marks'']\<rparr>"
  by code_simp

text \<open>
  The dict branch when the field is absent or holds a dict. A document applied without an
  exception that gives the field a table: every key and value is coerced by its declared
  type, and in the resulting dict a key of the document has the document's (last) value for
  it, and every other key has the value it had before.
\<close>

lemma dict_field_merges:
  assumes "map_of (dataclass_fields cls) key = Some t" "value_type t = DictOf dk_t dv_t"
    and "getattr self key = Some (PDict existing) \<or> (getattr self key = None \<and> existing = [])"
    and "distinct (map fst doc)" "(key, TTable kvs) \<in> set doc"
    and "update cls self doc = (self', None)"
  shows "\<exists>cs d. map (\<lambda>kv. (dk_t (TString (fst kv)), dv_t (snd kv))) kvs
                  = map (\<lambda>c. (Inr (fst c), Inr (snd c))) cs
           \<and> getattr self' key = Some (PDict d)
           \<and> (\<forall>q. dict_get d q = (case dict_get (rev cs) q of Some v \<Rightarrow> Some v
                                     | None \<Rightarrow> dict_get existing q))"
proof -
  from update_member[OF assms(6) assms(4) assms(5) assms(1)] assms(2)
  obtain s s1 where s: "getattr s key = getattr self key"
    "assign (DictOf dk_t dv_t) s key (TTable kvs) = (s1, None)" "getattr self' key = getattr s1 key"
    by auto
  from assign_dict_ok[OF s(2), of existing] s(1) assms(3)
  show ?thesis using s(3) by fastforce
qed

lemma dict_field_merges_example:
  "getattr (fst (update Config (fst (update Config Config_default limits_cpu)) limits_mem_cpu))
           ''limits''
     = Some (PDict [(PStr ''cpu'', PInt 9), (PStr ''mem'', PInt 2)])
   \<and> (\<exists>cs d. map (\<lambda>kv. (py_str (TString (fst kv)), py_int (snd kv)))
                  [(''mem'', TInteger 2), (''cpu'', TInteger 9)]
                = map (\<lambda>c. (Inr (fst c), Inr (snd c))) cs
          \<and> getattr (fst (update Config (fst (update Config Config_default limits_cpu))
                              limits_mem_cpu)) ''limits'' = Some (PDict d)
          \<and> (\<forall>q. dict_get d q = (case dict_get (rev cs) q of Some v \<Rightarrow> Some v
                                   | None \<Rightarrow> dict_get [(PStr ''cpu'', PInt 1)] q)))"
proof -
  have t: "value_type (Type (DictOf py_str py_int)) = DictOf py_str py_int"
    by (simp add: value_type_def)
  have e: "getattr (fst (update Config Config_default limits_cpu)) ''limits''
             = Some (PDict [(PStr ''cpu'', PInt 1)])
           \<or> (getattr (fst (update Config Config_default limits_cpu)) ''limits'' = None
              \<and> [(PStr ''cpu'', PInt 1)] = [])"
    by code_simp
  have d: "distinct (map fst limits_mem_cpu)" by code_simp
  have m: "(''limits'', TTable [(''mem'', TInteger 2), (''cpu'', TInteger 9)]) \<in> set limits_mem_cpu"
    by code_simp
  have u: "update Config (fst (update Config Config_default limits_cpu)) limits_mem_cpu
             = (fst (update Config (fst (update Config Config_default limits_cpu)) limits_mem_cpu),
                None)"
    by code_simp
  have v: "getattr (fst (update Config (fst (update Config Config_default limits_cpu))
                           limits_mem_cpu)) ''limits''
             = Some (PDict [(PStr ''cpu'', PInt 9), (PStr ''mem'', PInt 2)])"
    by code_simp
  from dict_field_merges[OF Config_field(3) t e d m u] v show ?thesis by blast
qed

text \<open>
  C6. A dict-shaped field that holds no dict yet does not always start from empty. For the
  field \<open>limits: dict[str, int] | None = None\<close>, \<open>getattr(self, key, {})\<close> of line 51
  returns the \<open>None\<close> the field holds, and \<open>update\<close> of line 52 raises an \<open>AttributeError\<close>
  that leaves \<^verbatim>\<open>parse\<close> unwrapped. The scalar, tuple and set branches assign over the
  \<open>None\<close> of such a field.
\<close>

theorem optional_dict_field_raises_AttributeError:
  "config_init Opt [] = Inr Opt_default
   \<and> getattr Opt_default ''limits'' = Some PNone
   \<and> parse fs_opt Opt (Some ''limits.toml'') None False
     = Inl (AttributeError (quoted ''NoneType'' @ '' object has no attribute '' @ quoted ''update''))
   \<and> parse fs_opt Opt (Some ''others.toml'') None False
     = Inr \<lparr>cls_name = ''Opt'',
            attrs = [(''port'', PInt 80), (''tags'', PNone), (''limits'', PNone),
                     (''flags'', PTuple [PStr ''z'']), (''marks'', PSet [PStr ''z''])],
            set_attrs = [''port'', ''flags'', ''marks'']\<rparr>"
  by code_simp

text \<open>
  C7. For a tuple-shaped or set-shaped field, a document applied without an exception that
  gives the field an array: the field then holds the tuple, or the set, of the coerced
  elements of that array alone, whatever it held before.
\<close>

theorem tuple_and_set_fields_replace:
  assumes "map_of (dataclass_fields cls) key = Some t"
    and "distinct (map fst doc)" "(key, TArray xs) \<in> set doc"
    and "update cls self doc = (self', None)"
  shows "(value_type t = TupleOf item_t \<longrightarrow>
            (\<exists>ys. map item_t xs = map Inr ys \<and> getattr self' key = Some (PTuple ys)))
       \<and> (value_type t = SetOf item_t \<longrightarrow>
            (\<exists>ys. map item_t xs = map Inr ys \<and> getattr self' key = Some (PSet (set_update [] ys))))"
proof -
  from update_member[OF assms(4) assms(2) assms(3) assms(1)]
  obtain s s1 where s: "assign (value_type t) s key (TArray xs) = (s1, None)"
    "getattr self' key = getattr s1 key"
    by auto
  have "\<exists>ys. map item_t xs = map Inr ys \<and> getattr s1 key = Some (PTuple ys)"
    if "value_type t = TupleOf item_t"
    using s(1) that
    by (auto simp: py_iter_def getattr_setattr getattr_add_set_attr map_ctor_None
             split: option.splits prod.splits)
  moreover have "\<exists>ys. map item_t xs = map Inr ys \<and> getattr s1 key = Some (PSet (set_update [] ys))"
    if "value_type t = SetOf item_t"
  proof -
    from s(1) that obtain st where b: "build_set item_t xs [] = Inr st"
      and g: "getattr s1 key = Some (PSet st)"
      by (auto simp: py_iter_def getattr_setattr getattr_add_set_attr split: sum.splits)
    from build_set_ok[OF b] g show ?thesis by auto
  qed
  ultimately show ?thesis using s(2) by simp
qed

theorem tuple_and_set_fields_replace_witness:
  "getattr (fst (update Config (fst (update Config Config_default flags_xy)) flags_z)) ''flags''
     = Some (PTuple [PStr ''z''])
   \<and> getattr (fst (update Config (fst (update Config Config_default flags_xy)) flags_z)) ''marks''
     = Some (PSet [PStr ''z''])
   \<and> getattr (fst (update Config Config_default flags_xy)) ''flags''
     = Some (PTuple [PStr ''x'', PStr ''y''])"
proof -
  let ?s1 = "fst (update Config Config_default flags_xy)"
  let ?s2 = "fst (update Config ?s1 flags_z)"
  have d: "distinct (map fst flags_z)" by code_simp
  have mf: "(''flags'', TArray [TString ''z'']) \<in> set flags_z"
    and mm: "(''marks'', TArray [TString ''z'']) \<in> set flags_z" by code_simp+
  have u: "update Config ?s1 flags_z = (?s2, None)" by code_simp
  have tf: "value_type (Type (TupleOf py_str)) = TupleOf py_str"
    and tm: "value_type (Type (SetOf py_str)) = SetOf py_str" by (simp_all add: value_type_def)
  have before: "getattr ?s1 ''flags'' = Some (PTuple [PStr ''x'', PStr ''y''])" by code_simp
  from tuple_and_set_fields_replace[OF Config_field(4) d mf u, of py_str] tf
  have "\<exists>ys. map py_str [TString ''z''] = map Inr ys \<and> getattr ?s2 ''flags'' = Some (PTuple ys)"
    by blast
  then obtain ys where "map py_str [TString ''z''] = map Inr ys" "getattr ?s2 ''flags'' = Some (PTuple ys)"
    by blast
  then have f: "getattr ?s2 ''flags'' = Some (PTuple [PStr ''z''])" by (auto simp: py_str_def)
  from tuple_and_set_fields_replace[OF Config_field(5) d mm u, of py_str] tm
  have "\<exists>zs. map py_str [TString ''z''] = map Inr zs
              \<and> getattr ?s2 ''marks'' = Some (PSet (set_update [] zs))"
    by blast
  then obtain zs where "map py_str [TString ''z''] = map Inr zs"
    "getattr ?s2 ''marks'' = Some (PSet (set_update [] zs))"
    by blast
  then have s: "getattr ?s2 ''marks'' = Some (PSet [PStr ''z''])" by (auto simp: py_str_def)
  from f s before show ?thesis by simp
qed

section \<open>Missing files\<close>

text \<open>
  C8 (as amended). A \<open>FileNotFoundError\<close> ends the load where it is raised: at the base
  file, at the listing of the overlay directory, or at an entry of the sorted listing that
  passes the \<open>isfile\<close> test and cannot be opened. With \<open>ignore_missing\<close> true \<^verbatim>\<open>parse\<close>
  returns the instance as the files before that point left it (the default-valued instance
  when the base path is the missing file), whatever files would have followed: they are not
  read. With \<open>ignore_missing\<close> false the \<open>FileNotFoundError\<close> leaves \<^verbatim>\<open>parse\<close> unwrapped.
\<close>

theorem not_found_ends_the_load:
  assumes "is_configclass cls" "config_init cls [] = Inr self0"
  shows "(open_load sys p = Inl (FileNotFoundError m) \<longrightarrow>
            parse sys cls (Some p) conf_d_path ignore_missing
              = (if ignore_missing then Inr self0 else Inl (FileNotFoundError m)))
       \<and> (load_base sys cls self0 conf_path = (self1, None)
          \<and> listdir sys d = Inl (FileNotFoundError m) \<longrightarrow>
            parse sys cls conf_path (Some d) ignore_missing
              = (if ignore_missing then Inr self1 else Inl (FileNotFoundError m)))
       \<and> (load_base sys cls self0 conf_path = (self1, None)
          \<and> listdir sys d = Inr entries \<and> sort entries = before @ entry # after
          \<and> load_overlay sys cls d self1 conf_path before = (self2, file_path, None)
          \<and> isfile sys entry \<and> open_load sys (join d entry) = Inl (FileNotFoundError m) \<longrightarrow>
            parse sys cls conf_path (Some d) ignore_missing
              = (if ignore_missing then Inr self2 else Inl (FileNotFoundError m)))"
proof (intro conjI impI)
  assume "open_load sys p = Inl (FileNotFoundError m)"
  with assms show "parse sys cls (Some p) conf_d_path ignore_missing
              = (if ignore_missing then Inr self0 else Inl (FileNotFoundError m))"
    by (simp add: parse_def try_block_def load_files_def load_base_def)
next
  assume "load_base sys cls self0 conf_path = (self1, None)
          \<and> listdir sys d = Inl (FileNotFoundError m)"
  with assms show "parse sys cls conf_path (Some d) ignore_missing
              = (if ignore_missing then Inr self1 else Inl (FileNotFoundError m))"
    by (simp add: parse_def try_block_def load_files_def)
next
  assume a: "load_base sys cls self0 conf_path = (self1, None)
          \<and> listdir sys d = Inr entries \<and> sort entries = before @ entry # after
          \<and> load_overlay sys cls d self1 conf_path before = (self2, file_path, None)
          \<and> isfile sys entry \<and> open_load sys (join d entry) = Inl (FileNotFoundError m)"
  then have "load_overlay sys cls d self1 conf_path (sort entries)
               = (self2, Some entry, Some (FileNotFoundError m))"
    using load_overlay_stops[of sys cls d self1 conf_path before self2 file_path entry
                                "FileNotFoundError m" after]
    by simp
  with a assms show "parse sys cls conf_path (Some d) ignore_missing
              = (if ignore_missing then Inr self2 else Inl (FileNotFoundError m))"
    by (simp add: parse_def try_block_def load_files_def)
qed

theorem not_found_ends_the_load_witness:
  "parse fs_inside Config (Some ''missing.toml'') (Some ''.'') True = Inr Config_default
   \<and> parse fs_inside Config (Some ''missing.toml'') (Some ''.'') False
     = Inl (no_such_file ''missing.toml'')
   \<and> parse fs_base Config (Some ''good.toml'') (Some ''conf.d'') True
     = Inr (fst (load_base fs_base Config Config_default (Some ''good.toml'')))
   \<and> parse fs_dangling Config None (Some ''conf.d'') True
     = Inr (Config_default\<lparr>attrs := assoc_set Config_defaults ''tags'' (PList [PStr ''a'']),
                           set_attrs := [''tags'']\<rparr>)
   \<and> parse fs_dangling Config None (Some ''conf.d'') False
     = Inl (no_such_file ''conf.d/b.toml'')"
proof -
  let ?a = "Config_default\<lparr>attrs := assoc_set Config_defaults ''tags'' (PList [PStr ''a'']),
                           set_attrs := [''tags'']\<rparr>"
  have c: "is_configclass Config" by (simp add: Config_def)
  have i: "config_init Config [] = Inr Config_default" by code_simp
  have n1: "no_such_file ''missing.toml''
              = FileNotFoundError (''[Errno 2] No such file or directory: '' @ quoted ''missing.toml'')"
    and n2: "no_such_file ''conf.d''
              = FileNotFoundError (''[Errno 2] No such file or directory: '' @ quoted ''conf.d'')"
    and n3: "no_such_file ''conf.d/b.toml''
              = FileNotFoundError (''[Errno 2] No such file or directory: '' @ quoted ''conf.d/b.toml'')"
    by code_simp+
  have o: "open_load fs_inside ''missing.toml'' = Inl (no_such_file ''missing.toml'')"
    by code_simp
  have b2: "load_base fs_base Config Config_default (Some ''good.toml'')
              = (fst (load_base fs_base Config Config_default (Some ''good.toml'')), None)"
    by code_simp
  have l2: "listdir fs_base ''conf.d'' = Inl (no_such_file ''conf.d'')" by code_simp
  have b3: "load_base fs_dangling Config Config_default None = (Config_default, None)"
    by code_simp
  have l3: "listdir fs_dangling ''conf.d'' = Inr [''c.toml'', ''b.toml'', ''a.toml'']"
    by code_simp
  have s3: "sort [''c.toml'', ''b.toml'', ''a.toml''] = [''a.toml''] @ ''b.toml'' # [''c.toml'']"
    by code_simp
  have v3: "load_overlay fs_dangling Config ''conf.d'' Config_default None [''a.toml'']
              = (?a, Some ''a.toml'', None)"
    by code_simp
  have f3: "isfile fs_dangling ''b.toml''" by code_simp
  have o3: "open_load fs_dangling (join ''conf.d'' ''b.toml'') = Inl (no_such_file ''conf.d/b.toml'')"
    by code_simp
  note t = not_found_ends_the_load[OF c i]
  have 1: "parse fs_inside Config (Some ''missing.toml'') (Some ''.'') True = Inr Config_default"
    using t[of fs_inside "''missing.toml''" _ "Some ''.''" True] o[unfolded n1] by simp
  have 2: "parse fs_inside Config (Some ''missing.toml'') (Some ''.'') False
             = Inl (no_such_file ''missing.toml'')"
    using t[of fs_inside "''missing.toml''" _ "Some ''.''" False] o[unfolded n1] n1 by simp
  have 3: "parse fs_base Config (Some ''good.toml'') (Some ''conf.d'') True
             = Inr (fst (load_base fs_base Config Config_default (Some ''good.toml'')))"
    using t[of fs_base _ _ _ True "Some ''good.toml''"
              "fst (load_base fs_base Config Config_default (Some ''good.toml''))" "''conf.d''"]
          b2 l2[unfolded n2]
    by simp
  have 4: "parse fs_dangling Config None (Some ''conf.d'') True = Inr ?a"
    using t[of fs_dangling _ _ _ True None Config_default "''conf.d''"
              "[''c.toml'', ''b.toml'', ''a.toml'']" "[''a.toml'']" "''b.toml''" "[''c.toml'']"
              ?a "Some ''a.toml''"]
          b3 l3 s3 v3 f3 o3[unfolded n3]
    by simp
  have 5: "parse fs_dangling Config None (Some ''conf.d'') False
             = Inl (no_such_file ''conf.d/b.toml'')"
    using t[of fs_dangling _ _ _ False None Config_default "''conf.d''"
              "[''c.toml'', ''b.toml'', ''a.toml'']" "[''a.toml'']" "''b.toml''" "[''c.toml'']"
              ?a "Some ''a.toml''"]
          b3 l3 s3 v3 f3 o3[unfolded n3] n3
    by simp
  from 1 2 3 4 5 show ?thesis by simp
qed

text \<open>
  The claim as stated fails: with the base path missing and \<open>ignore_missing\<close> true, the
  overlay directory is not read, while the load without a base path applies its two files.
\<close>

theorem missing_base_drops_overlay_counterexample:
  "open_load fs_inside ''missing.toml'' = Inl (no_such_file ''missing.toml'')
   \<and> parse fs_inside Config (Some ''missing.toml'') (Some ''.'') True = Inr Config_default
   \<and> parse fs_inside Config None (Some ''.'') True
     = Inr (Config_default\<lparr>attrs := assoc_set Config_defaults ''tags'' (PList [PStr ''a'', PStr ''b'']),
                           set_attrs := [''tags'']\<rparr>)"
  by code_simp

section \<open>Provenance\<close>



section \<open>Suppression and the validator\<close>

text \<open>
  C10. When a \<open>FileNotFoundError\<close> is raised while the files are loaded and \<open>ignore_missing\<close>
  is true, \<^verbatim>\<open>parse\<close> returns the instance as it is at that point whatever validator hook the
  class declares: the hook is not called.
\<close>

theorem suppressed_not_found_skips_validator:
  assumes "is_configclass cls" "config_init cls [] = Inr self0"
    and "load_files sys cls self0 conf_path conf_d_path = (self, file_path, Some (FileNotFoundError m))"
  shows "parse sys (cls\<lparr>validate := hook\<rparr>) conf_path conf_d_path True = Inr self"
  using assms by (simp add: parse_def try_block_def)

theorem suppressed_not_found_skips_validator_witness:
  "parse fs_base (Config\<lparr>validate := Some reject_all\<rparr>) (Some ''missing.toml'') None True
     = Inr Config_default
   \<and> reject_all Config_default = Some (ConfigError ''rejected'')"
proof -
  have c: "is_configclass Config" by (simp add: Config_def)
  have i: "config_init Config [] = Inr Config_default" by code_simp
  have l: "load_files fs_base Config Config_default (Some ''missing.toml'') None
             = (Config_default, Some ''missing.toml'',
                Some (FileNotFoundError (''[Errno 2] No such file or directory: '' @ quoted ''missing.toml'')))"
    by code_simp
  from suppressed_not_found_skips_validator[OF c i l, of "Some reject_all"]
  show ?thesis by (simp add: reject_all_def)
qed

end
